theory Spec2Isabelle
  imports
    Complex_Main
    "HOL-Library.Char_ord"
    "HOL-Library.List_Lexorder"
    "HOL-Library.AList"
begin

section \<open>Label health and cross-label flow analysis (package analysis)\<close>

text \<open>
  A shallow embedding of the label analysis code of beads_viewer: label extraction,
  label co-occurrence, velocity, freshness, per-label health, the orchestrator
  \<open>ComputeAllLabelHealth\<close> and the global pass \<open>ComputeCrossLabelFlow\<close>.

  Conventions of the embedding.
  \<^item> Go's \<open>int\<close> is \<^typ>\<open>int\<close>: every integer of this code is a counter bounded by
    the size of the input, or a score computed from one, far from the 64-bit range.
  \<^item> Go's \<open>string\<close> is \<^typ>\<open>string\<close>, ordered bytewise and lexicographically
    as Go's \<open><\<close> on strings is.
  \<^item> \<open>time.Time\<close> is an \<^typ>\<open>int\<close>: the nanoseconds since the zero instant, so
    that \<open>IsZero\<close> is equality with 0, and \<open>After\<close> and \<open>Before\<close> are \<open>></\<close> and \<open><\<close>.
    \<open>time.Duration\<close> is an \<^typ>\<open>int\<close> of nanoseconds kept in the signed 64-bit
    range: \<open>Sub\<close> saturates and \<open>+=\<close> wraps around, as in Go.
  \<^item> \<open>float64\<close> is idealised as \<^typ>\<open>real\<close>: the arithmetic is exact, and the
    conversion \<open>int(x)\<close> truncates toward zero. (Go rounds every operation to 53 bits,
    and leaves \<open>int(x)\<close> to the implementation when the integer part of \<open>x\<close> does not
    fit 64 bits, which takes a weight beyond \<open>10^16\<close>.)
  \<^item> \<open>t.Add(d)\<close> is \<open>t + d\<close>.
  \<^item> A Go map that the code iterates over is an association list with distinct keys in
    insertion order; every list built from such an iteration is sorted by the code
    before it is returned. A map that is only looked up is a HOL map.
\<close>

subsection \<open>The issue model\<close>

type_synonym Time = int
type_synonym Duration = int

record Dependency =
  DependsOnID :: string
  DepType :: string

text \<open>
  The struct \<open>model.Issue\<close> with the fields this package reads. \<open>ClosedAt\<close> is a pointer
  (\<open>None\<close> is \<open>nil\<close>), and so is every element of \<open>Dependencies\<close>.
\<close>

record Issue =
  ID :: string
  Status :: string
  Priority :: int
  IssueType :: string
  Labels :: "string list"
  CreatedAt :: Time
  UpdatedAt :: Time
  ClosedAt :: "Time option"
  Dependencies :: "Dependency option list"

text \<open>
  Modelled from the spec: the constants of package \<open>model\<close>, which is not part of the
  sources at hand. The status of an issue is one of open, in_progress, blocked and
  closed, and a dependency of type blocks is a blocking edge.
\<close>

definition StatusOpen :: string where
  "StatusOpen = ''open''"

definition StatusInProgress :: string where
  "StatusInProgress = ''in_progress''"

definition StatusBlocked :: string where
  "StatusBlocked = ''blocked''"

definition StatusClosed :: string where
  "StatusClosed = ''closed''"

definition DepBlocks :: string where
  "DepBlocks = ''blocks''"

subsection \<open>Sorting with a comparator\<close>

text \<open>
  \<open>sort.Slice(xs, less)\<close>: a permutation of \<open>xs\<close> in which no element is \<open>less\<close> than
  an earlier one. Go does not fix the algorithm; every call of this package passes a
  comparator under which two distinct elements of the slice are never tied (the keys come
  from a map), so the result is unique and insertion sort computes it.
\<close>

fun insort_less :: "('a \<Rightarrow> 'a \<Rightarrow> bool) \<Rightarrow> 'a \<Rightarrow> 'a list \<Rightarrow> 'a list" where
  "insort_less lt x [] = [x]"
| "insort_less lt x (y # ys) =
     (if lt x y then x # y # ys else y # insort_less lt x ys)"

definition sort_Slice :: "('a \<Rightarrow> 'a \<Rightarrow> bool) \<Rightarrow> 'a list \<Rightarrow> 'a list" where
  "sort_Slice lt xs = foldr (insort_less lt) xs []"

subsection \<open>Counting maps\<close>

text \<open>\<open>m[k]++\<close> on a \<open>map[K]int\<close>: a missing key reads as 0.\<close>

definition count_inc :: "'k \<Rightarrow> ('k \<times> int) list \<Rightarrow> ('k \<times> int) list" where
  "count_inc k m = AList.update k ((case map_of m k of None \<Rightarrow> 0 | Some c \<Rightarrow> c) + 1) m"

subsection \<open>Label extraction\<close>

record LabelStats =
  st_Label :: string
  TotalCount :: int
  st_OpenCount :: int
  st_ClosedCount :: int
  InProgress :: int
  st_Blocked :: int
  ByPriority :: "(int \<times> int) list"
  ByType :: "(string \<times> int) list"
  st_IssueIDs :: "string list"

record LabelExtractionResult =
  er_Labels :: "string list"
  LabelCount :: int
  Stats :: "(string \<times> LabelStats) list"
  er_IssueCount :: int
  UnlabeledCount :: int
  TopLabels :: "string list"

definition newLabelStats :: "string \<Rightarrow> LabelStats" where
  "newLabelStats label =
     \<lparr> st_Label = label, TotalCount = 0, st_OpenCount = 0, st_ClosedCount = 0,
       InProgress = 0, st_Blocked = 0, ByPriority = [], ByType = [], st_IssueIDs = [] \<rparr>"

text \<open>The updates of one \<open>LabelStats\<close> for one occurrence of its label on \<open>issue\<close>.\<close>

definition bump_stats :: "Issue \<Rightarrow> LabelStats \<Rightarrow> LabelStats" where
  "bump_stats issue stats =
     (let s1 = stats \<lparr> TotalCount := TotalCount stats + 1,
                       st_IssueIDs := st_IssueIDs stats @ [ID issue] \<rparr>;
          s2 = (if Status issue = StatusOpen then s1 \<lparr> st_OpenCount := st_OpenCount s1 + 1 \<rparr>
                else if Status issue = StatusClosed
                  then s1 \<lparr> st_ClosedCount := st_ClosedCount s1 + 1 \<rparr>
                else if Status issue = StatusInProgress
                  then s1 \<lparr> InProgress := InProgress s1 + 1 \<rparr>
                else s1)
      in s2 \<lparr> ByPriority := count_inc (Priority issue) (ByPriority s2),
              ByType := count_inc (IssueType issue) (ByType s2) \<rparr>)"

text \<open>
  The body of the inner loop of \<open>ExtractLabels\<close>; the state is \<open>labelSet\<close> and
  \<open>result.Stats\<close>.
\<close>

definition extract_label ::
  "Issue \<Rightarrow> string \<Rightarrow> (string \<times> bool) list \<times> (string \<times> LabelStats) list
     \<Rightarrow> (string \<times> bool) list \<times> (string \<times> LabelStats) list" where
  "extract_label issue label acc =
     (case acc of (labelSet, stats) \<Rightarrow>
        if label = [] then (labelSet, stats)
        else
          let labelSet' = AList.update label True labelSet;
              s = (case map_of stats label of
                     None \<Rightarrow> newLabelStats label
                   | Some s \<Rightarrow> s)
          in (labelSet', AList.update label (bump_stats issue s) stats))"

text \<open>The body of the outer loop; the third component is \<open>result.UnlabeledCount\<close>.\<close>

definition extract_issue ::
  "Issue \<Rightarrow> (string \<times> bool) list \<times> (string \<times> LabelStats) list \<times> int
     \<Rightarrow> (string \<times> bool) list \<times> (string \<times> LabelStats) list \<times> int" where
  "extract_issue issue acc =
     (case acc of (labelSet, stats, unlabeled) \<Rightarrow>
        let unlabeled' = (if length (Labels issue) = 0 then unlabeled + 1 else unlabeled);
            (labelSet', stats') = fold (extract_label issue) (Labels issue) (labelSet, stats)
        in (labelSet', stats', unlabeled'))"

definition labelCount_less :: "string \<times> int \<Rightarrow> string \<times> int \<Rightarrow> bool" where
  "labelCount_less a b =
     (if snd a \<noteq> snd b then snd a > snd b else fst a < fst b)"

definition sortLabelsByCount :: "(string \<times> LabelStats) list \<Rightarrow> string list" where
  "sortLabelsByCount stats =
     map fst (sort_Slice labelCount_less (map (\<lambda>(label, s). (label, TotalCount s)) stats))"

definition ExtractLabels :: "Issue list \<Rightarrow> LabelExtractionResult" where
  "ExtractLabels issues =
     (if length issues = 0
      then \<lparr> er_Labels = [], LabelCount = 0, Stats = [], er_IssueCount = 0,
             UnlabeledCount = 0, TopLabels = [] \<rparr>
      else
        (case fold extract_issue issues ([], [], 0) of (labelSet, stats, unlabeled) \<Rightarrow>
           let labels = sort (map fst labelSet)
           in \<lparr> er_Labels = labels, LabelCount = int (length labels), Stats = stats,
                er_IssueCount = int (length issues), UnlabeledCount = unlabeled,
                TopLabels = sortLabelsByCount stats \<rparr>))"

definition GetLabelIssues :: "Issue list \<Rightarrow> string \<Rightarrow> Issue list" where
  "GetLabelIssues issues label = filter (\<lambda>issue. label \<in> set (Labels issue)) issues"

fun GetLabelsForIssue :: "Issue list \<Rightarrow> string \<Rightarrow> string list" where
  "GetLabelsForIssue [] issueID = []"
| "GetLabelsForIssue (issue # rest) issueID =
     (if ID issue = issueID then Labels issue else GetLabelsForIssue rest issueID)"

subsection \<open>Label co-occurrence\<close>

type_synonym Cooc = "string \<rightharpoonup> (string \<rightharpoonup> int)"

text \<open>\<open>cooc[k1][k2]++\<close>; the inner map has been initialised when this runs.\<close>

definition cooc_inc :: "string \<Rightarrow> string \<Rightarrow> Cooc \<Rightarrow> Cooc" where
  "cooc_inc k1 k2 cooc =
     (case cooc k1 of
        None \<Rightarrow> cooc
      | Some m \<Rightarrow> cooc(k1 \<mapsto> m(k2 \<mapsto> (case m k2 of None \<Rightarrow> 0 | Some n \<Rightarrow> n) + 1)))"

text \<open>The body of the loop over \<open>j\<close>, for the labels \<open>a = labels[i]\<close> and \<open>b = labels[j]\<close>.\<close>

definition cooc_pair :: "string \<Rightarrow> string \<Rightarrow> Cooc \<Rightarrow> Cooc" where
  "cooc_pair a b cooc =
     (let l1 = (if a > b then b else a);
          l2 = (if a > b then a else b);
          c1 = (if cooc l1 = None then cooc(l1 \<mapsto> Map.empty) else cooc);
          c2 = (if c1 l2 = None then c1(l2 \<mapsto> Map.empty) else c1)
      in cooc_inc l2 l1 (cooc_inc l1 l2 c2))"

text \<open>The loops over \<open>i\<close> and \<open>j > i\<close>: every label with every later label of the issue.\<close>

fun cooc_labels :: "string list \<Rightarrow> Cooc \<Rightarrow> Cooc" where
  "cooc_labels [] cooc = cooc"
| "cooc_labels (a # rest) cooc = cooc_labels rest (fold (cooc_pair a) rest cooc)"

definition GetLabelCooccurrence :: "Issue list \<Rightarrow> Cooc" where
  "GetLabelCooccurrence issues = fold (\<lambda>issue. cooc_labels (Labels issue)) issues Map.empty"

text \<open>
  The read \<open>cooc[a][b]\<close> as an option: \<open>None\<close> when the outer key \<open>a\<close> or the inner
  key \<open>b\<close> is absent.
\<close>

definition cooc_entry :: "Cooc \<Rightarrow> string \<Rightarrow> string \<Rightarrow> int option" where
  "cooc_entry cooc a b = (case cooc a of None \<Rightarrow> None | Some m \<Rightarrow> m b)"

subsection \<open>Constants, configuration and scores\<close>

definition HealthLevelHealthy :: string where
  "HealthLevelHealthy = ''healthy''"

definition HealthLevelWarning :: string where
  "HealthLevelWarning = ''warning''"

definition HealthLevelCritical :: string where
  "HealthLevelCritical = ''critical''"

definition DefaultStaleThresholdDays :: int where
  "DefaultStaleThresholdDays = 14"

definition HealthyThreshold :: int where
  "HealthyThreshold = 70"

definition WarningThreshold :: int where
  "WarningThreshold = 40"

definition VelocityWeight :: real where
  "VelocityWeight = 0.25"

definition FreshnessWeight :: real where
  "FreshnessWeight = 0.25"

definition FlowWeight :: real where
  "FlowWeight = 0.25"

definition CriticalityWeight :: real where
  "CriticalityWeight = 0.25"

record LabelHealthConfig =
  cfg_StaleThresholdDays :: int
  cfg_VelocityWeight :: real
  cfg_FreshnessWeight :: real
  cfg_FlowWeight :: real
  cfg_CriticalityWeight :: real
  MinIssuesForHealth :: int
  IncludeClosedInFlow :: bool

definition DefaultLabelHealthConfig :: LabelHealthConfig where
  "DefaultLabelHealthConfig =
     \<lparr> cfg_StaleThresholdDays = DefaultStaleThresholdDays,
       cfg_VelocityWeight = VelocityWeight,
       cfg_FreshnessWeight = FreshnessWeight,
       cfg_FlowWeight = FlowWeight,
       cfg_CriticalityWeight = CriticalityWeight,
       MinIssuesForHealth = 1,
       IncludeClosedInFlow = False \<rparr>"

definition clampScore :: "int \<Rightarrow> int" where
  "clampScore v = (if v < 0 then 0 else if v > 100 then 100 else v)"

definition minFloat :: "real \<Rightarrow> real \<Rightarrow> real" where
  "minFloat a b = (if a < b then a else b)"

definition maxFloat :: "real \<Rightarrow> real \<Rightarrow> real" where
  "maxFloat a b = (if a > b then a else b)"

text \<open>The conversion \<open>int(x)\<close> of a \<open>float64\<close>: the fraction is discarded.\<close>

definition trunc :: "real \<Rightarrow> int" where
  "trunc x = (if 0 \<le> x then \<lfloor>x\<rfloor> else \<lceil>x\<rceil>)"

definition HealthLevelFromScore :: "int \<Rightarrow> string" where
  "HealthLevelFromScore score =
     (if score \<ge> HealthyThreshold then HealthLevelHealthy
      else if score \<ge> WarningThreshold then HealthLevelWarning
      else HealthLevelCritical)"

definition ComputeCompositeHealth ::
  "int \<Rightarrow> int \<Rightarrow> int \<Rightarrow> int \<Rightarrow> LabelHealthConfig \<Rightarrow> int" where
  "ComputeCompositeHealth velocity freshness flow criticality cfg =
     (let weighted = real_of_int velocity * cfg_VelocityWeight cfg +
                     real_of_int freshness * cfg_FreshnessWeight cfg +
                     real_of_int flow * cfg_FlowWeight cfg +
                     real_of_int criticality * cfg_CriticalityWeight cfg
      in clampScore (trunc (weighted + 0.5)))"

subsection \<open>Times and durations\<close>

definition hour :: Duration where
  "hour = 3600000000000"

definition day :: Duration where
  "day = 24 * hour"

definition maxDuration :: Duration where
  "maxDuration = 2 ^ 63 - 1"

definition minDuration :: Duration where
  "minDuration = - (2 ^ 63)"

text \<open>\<open>t.Sub(u)\<close>: the difference, saturated to the range of a \<open>Duration\<close>.\<close>

definition Time_Sub :: "Time \<Rightarrow> Time \<Rightarrow> Duration" where
  "Time_Sub t u =
     (let d = t - u
      in if d > maxDuration then maxDuration else if d < minDuration then minDuration else d)"

text \<open>Addition of durations, which wraps around in 64 bits.\<close>

definition Duration_add :: "Duration \<Rightarrow> Duration \<Rightarrow> Duration" where
  "Duration_add a b = (a + b + 2 ^ 63) mod 2 ^ 64 - 2 ^ 63"

text \<open>
  \<open>d.Hours()\<close>: the whole hours plus the remaining nanoseconds over the nanoseconds of
  an hour, which is the exact quotient.
\<close>

definition Hours :: "Duration \<Rightarrow> real" where
  "Hours d = real_of_int d / 3600000000000"

subsection \<open>Velocity\<close>

record VelocityMetrics =
  ClosedLast7Days :: int
  ClosedLast30Days :: int
  AvgDaysToClose :: real
  TrendDirection :: string
  TrendPercent :: real
  VelocityScore :: int

text \<open>The variables of the loop of \<open>ComputeVelocityMetrics\<close>.\<close>

record velocity_acc =
  closed7 :: int
  closed30 :: int
  prevWeek :: int
  currentWeek :: int
  totalCloseDur :: Duration
  closeSamples :: int

definition velocity_init :: velocity_acc where
  "velocity_init =
     \<lparr> closed7 = 0, closed30 = 0, prevWeek = 0, currentWeek = 0,
       totalCloseDur = 0, closeSamples = 0 \<rparr>"

definition velocity_step :: "Time \<Rightarrow> Issue \<Rightarrow> velocity_acc \<Rightarrow> velocity_acc" where
  "velocity_step now iss a =
     (case ClosedAt iss of
        None \<Rightarrow> a
      | Some closedAt \<Rightarrow>
          let weekAgo = now + (- 7) * day;
              monthAgo = now + (- 30) * day;
              prevWeekStart = now + (- 14) * day;
              a1 = (if closedAt > weekAgo then a \<lparr> closed7 := closed7 a + 1 \<rparr> else a);
              a2 = (if closedAt > monthAgo then a1 \<lparr> closed30 := closed30 a1 + 1 \<rparr> else a1);
              a3 = (if closedAt > prevWeekStart \<and> closedAt < weekAgo
                    then a2 \<lparr> prevWeek := prevWeek a2 + 1 \<rparr>
                    else if closedAt > weekAgo
                      then a2 \<lparr> currentWeek := currentWeek a2 + 1 \<rparr>
                    else a2)
          in if CreatedAt iss \<noteq> 0
             then a3 \<lparr> totalCloseDur :=
                         Duration_add (totalCloseDur a3) (Time_Sub closedAt (CreatedAt iss)),
                       closeSamples := closeSamples a3 + 1 \<rparr>
             else a3)"

definition velocity_trend :: "int \<Rightarrow> int \<Rightarrow> real \<times> string" where
  "velocity_trend cur prev =
     (if prev > 0
      then let trendPercent = (real_of_int (cur - prev) / real_of_int prev) * 100
           in (trendPercent,
               if trendPercent > 10 then ''improving''
               else if trendPercent < - 10 then ''declining''
               else ''stable'')
      else if cur > 0 then (100, ''improving'')
      else (0, ''stable''))"

definition ComputeVelocityMetrics :: "Issue list \<Rightarrow> Time \<Rightarrow> VelocityMetrics" where
  "ComputeVelocityMetrics issues now =
     (let a = fold (velocity_step now) issues velocity_init;
          avgDays = (if closeSamples a > 0
                     then Hours (totalCloseDur a) / 24 / real_of_int (closeSamples a)
                     else 0);
          (trendPercent, trendDir) = velocity_trend (currentWeek a) (prevWeek a);
          score0 = (if closed30 a > 0
                    then trunc (minFloat 100 (real_of_int (closed30 a) * 10))
                    else 0);
          velocityScore = (if trendDir = ''improving'' \<and> score0 < 100
                           then clampScore (score0 + 10)
                           else score0)
      in \<lparr> ClosedLast7Days = closed7 a, ClosedLast30Days = closed30 a,
           AvgDaysToClose = avgDays, TrendDirection = trendDir,
           TrendPercent = trendPercent, VelocityScore = velocityScore \<rparr>)"

subsection \<open>Freshness\<close>

record FreshnessMetrics =
  MostRecentUpdate :: Time
  OldestOpenIssue :: Time
  AvgDaysSinceUpdate :: real
  StaleCount :: int
  StaleThresholdDays :: int
  FreshnessScore :: int

text \<open>The variables of the loop of \<open>ComputeFreshnessMetrics\<close>.\<close>

record freshness_acc =
  mostRecent :: Time
  oldestOpen :: Time
  totalStaleness :: real
  updCount :: int
  staleCount :: int

definition freshness_init :: freshness_acc where
  "freshness_init =
     \<lparr> mostRecent = 0, oldestOpen = 0, totalStaleness = 0, updCount = 0, staleCount = 0 \<rparr>"

definition freshness_step :: "Time \<Rightarrow> real \<Rightarrow> Issue \<Rightarrow> freshness_acc \<Rightarrow> freshness_acc" where
  "freshness_step now threshold iss a =
     (let a1 = (if UpdatedAt iss > mostRecent a then a \<lparr> mostRecent := UpdatedAt iss \<rparr> else a);
          a2 = (if Status iss \<noteq> StatusClosed
                then (if oldestOpen a1 = 0 \<or> CreatedAt iss < oldestOpen a1
                      then a1 \<lparr> oldestOpen := CreatedAt iss \<rparr>
                      else a1)
                else a1)
      in if UpdatedAt iss \<noteq> 0
         then let days = Hours (Time_Sub now (UpdatedAt iss)) / 24
              in a2 \<lparr> totalStaleness := totalStaleness a2 + days,
                      updCount := updCount a2 + 1,
                      staleCount := (if days \<ge> threshold then staleCount a2 + 1
                                     else staleCount a2) \<rparr>
         else a2)"

definition ComputeFreshnessMetrics :: "Issue list \<Rightarrow> Time \<Rightarrow> int \<Rightarrow> FreshnessMetrics" where
  "ComputeFreshnessMetrics issues now staleDays0 =
     (let staleDays = (if staleDays0 \<le> 0 then DefaultStaleThresholdDays else staleDays0);
          threshold = real_of_int staleDays;
          a = fold (freshness_step now threshold) issues freshness_init;
          avgStaleness = (if updCount a > 0 then totalStaleness a / real_of_int (updCount a)
                          else 0);
          freshnessScore = trunc (maxFloat 0 (100 - (avgStaleness / (threshold * 2)) * 100))
      in \<lparr> MostRecentUpdate = mostRecent a, OldestOpenIssue = oldestOpen a,
           AvgDaysSinceUpdate = avgStaleness, StaleCount = staleCount a,
           StaleThresholdDays = staleDays, FreshnessScore = clampScore freshnessScore \<rparr>)"

subsection \<open>Per-label health\<close>

record FlowMetrics =
  IncomingDeps :: int
  OutgoingDeps :: int
  IncomingLabels :: "string list"
  OutgoingLabels :: "string list"
  BlockedByExternal :: int
  BlockingExternal :: int
  FlowScore :: int

record CriticalityMetrics =
  AvgPageRank :: real
  AvgBetweenness :: real
  MaxBetweenness :: real
  CriticalPathCount :: int
  BottleneckCount :: int
  CriticalityScore :: int

record LabelHealth =
  lh_Label :: string
  lh_IssueCount :: int
  lh_OpenCount :: int
  lh_ClosedCount :: int
  lh_Blocked :: int
  lh_Health :: int
  lh_HealthLevel :: string
  Velocity :: VelocityMetrics
  Freshness :: FreshnessMetrics
  Flow :: FlowMetrics
  Criticality :: CriticalityMetrics
  Issues :: "string list"

definition NewLabelHealth :: "string \<Rightarrow> LabelHealth" where
  "NewLabelHealth label =
     \<lparr> lh_Label = label, lh_IssueCount = 0, lh_OpenCount = 0, lh_ClosedCount = 0,
       lh_Blocked = 0, lh_Health = 100, lh_HealthLevel = HealthLevelHealthy,
       Velocity = \<lparr> ClosedLast7Days = 0, ClosedLast30Days = 0, AvgDaysToClose = 0,
                    TrendDirection = ''stable'', TrendPercent = 0, VelocityScore = 100 \<rparr>,
       Freshness = \<lparr> MostRecentUpdate = 0, OldestOpenIssue = 0, AvgDaysSinceUpdate = 0,
                     StaleCount = 0, StaleThresholdDays = DefaultStaleThresholdDays,
                     FreshnessScore = 100 \<rparr>,
       Flow = \<lparr> IncomingDeps = 0, OutgoingDeps = 0, IncomingLabels = [],
                OutgoingLabels = [], BlockedByExternal = 0, BlockingExternal = 0,
                FlowScore = 100 \<rparr>,
       Criticality = \<lparr> AvgPageRank = 0, AvgBetweenness = 0, MaxBetweenness = 0,
                       CriticalPathCount = 0, BottleneckCount = 0, CriticalityScore = 50 \<rparr>,
       Issues = [] \<rparr>"

definition NeedsAttention :: "LabelHealth \<Rightarrow> bool" where
  "NeedsAttention health = (lh_Health health < HealthyThreshold)"

text \<open>The status switch of \<open>ComputeLabelHealthForLabel\<close>, for one member issue.\<close>

definition status_step :: "Issue \<Rightarrow> LabelHealth \<Rightarrow> LabelHealth" where
  "status_step iss health =
     (if Status iss = StatusClosed then health \<lparr> lh_ClosedCount := lh_ClosedCount health + 1 \<rparr>
      else if Status iss = StatusInProgress
        then health \<lparr> lh_OpenCount := lh_OpenCount health + 1 \<rparr>
      else if Status iss = StatusBlocked then health \<lparr> lh_Blocked := lh_Blocked health + 1 \<rparr>
      else health \<lparr> lh_OpenCount := lh_OpenCount health + 1 \<rparr>)"

text \<open>
  The flow loop. The state is \<open>flow.IncomingDeps\<close>, \<open>flow.OutgoingDeps\<close> and the key
  sets \<open>seenIn\<close> and \<open>seenOut\<close>.
\<close>

type_synonym flow_acc = "int \<times> int \<times> string list \<times> string list"

definition flow_incoming :: "string \<Rightarrow> string \<Rightarrow> flow_acc \<Rightarrow> flow_acc" where
  "flow_incoming label blabel acc =
     (case acc of (inc, out, seenIn, seenOut) \<Rightarrow>
        if blabel \<noteq> label then (inc + 1, out, List.insert blabel seenIn, seenOut) else acc)"

definition flow_outgoing :: "string \<Rightarrow> string \<Rightarrow> flow_acc \<Rightarrow> flow_acc" where
  "flow_outgoing label tlabel acc =
     (case acc of (inc, out, seenIn, seenOut) \<Rightarrow>
        if tlabel = label then acc else (inc, out + 1, seenIn, List.insert tlabel seenOut))"

definition flow_dep ::
  "string \<Rightarrow> Issue list \<Rightarrow> Issue \<Rightarrow> Dependency option \<Rightarrow> flow_acc \<Rightarrow> flow_acc" where
  "flow_dep label issues iss dep acc =
     (case dep of
        None \<Rightarrow> acc
      | Some d \<Rightarrow>
          if DepType d \<noteq> DepBlocks then acc
          else
            let blockerLabels = GetLabelsForIssue issues (DependsOnID d);
                targetLabels = Labels iss
            in fold (flow_outgoing label) targetLabels
                 (fold (flow_incoming label) blockerLabels acc))"

definition flow_issue :: "string \<Rightarrow> Issue list \<Rightarrow> Issue \<Rightarrow> flow_acc \<Rightarrow> flow_acc" where
  "flow_issue label issues iss acc = fold (flow_dep label issues iss) (Dependencies iss) acc"

definition compute_flow :: "string \<Rightarrow> Issue list \<Rightarrow> Issue list \<Rightarrow> FlowMetrics" where
  "compute_flow label issues labeled =
     (case fold (flow_issue label issues) labeled (0, 0, [], []) of
        (inc, out, seenIn, seenOut) \<Rightarrow>
          \<lparr> IncomingDeps = inc, OutgoingDeps = out,
            IncomingLabels = sort seenIn, OutgoingLabels = sort seenOut,
            BlockedByExternal = 0, BlockingExternal = 0,
            FlowScore = clampScore (100 - (inc * 5)) \<rparr>)"

text \<open>
  The graph statistics come from the analyzer of the package, which is not part of the
  sources at hand: they are a parameter. \<open>PageRank\<close> and \<open>Betweenness\<close> are the maps
  returned by the methods of these names, and \<open>CriticalPathScore\<close> is the table behind
  \<open>GetCriticalPathScore\<close>. A missing key reads as 0.
\<close>

record GraphStats =
  PageRank :: "(string \<times> real) list"
  Betweenness :: "(string \<times> real) list"
  CriticalPathScore :: "(string \<times> real) list"

definition float_at :: "(string \<times> real) list \<Rightarrow> string \<Rightarrow> real" where
  "float_at m k = (case map_of m k of None \<Rightarrow> 0 | Some v \<Rightarrow> v)"

text \<open>
  Modelled from the spec: \<open>findMax\<close>, whose body is not part of the sources at hand,
  returns the global maximum of the values of a map, the normalisation denominator; it is
  0 when no value is positive.
\<close>

definition findMax :: "(string \<times> real) list \<Rightarrow> real" where
  "findMax m = fold (\<lambda>kv mx. if snd kv > mx then snd kv else mx) m 0"

text \<open>
  The criticality loop. The state is \<open>prSum\<close>, \<open>bwSum\<close>, \<open>maxBwLabel\<close>, \<open>critCount\<close>
  and \<open>bottleneckCount\<close>.
\<close>

type_synonym crit_acc = "real \<times> real \<times> real \<times> int \<times> int"

definition crit_step :: "GraphStats \<Rightarrow> Issue \<Rightarrow> crit_acc \<Rightarrow> crit_acc" where
  "crit_step stats iss acc =
     (case acc of (prSum, bwSum, maxBwLabel, critCount, bottleneckCount) \<Rightarrow>
        let bwVal = float_at (Betweenness stats) (ID iss)
        in (prSum + float_at (PageRank stats) (ID iss),
            bwSum + bwVal,
            (if bwVal > maxBwLabel then bwVal else maxBwLabel),
            (if float_at (CriticalPathScore stats) (ID iss) > 0 then critCount + 1
             else critCount),
            (if bwVal > 0 then bottleneckCount + 1 else bottleneckCount)))"

definition compute_criticality :: "GraphStats \<Rightarrow> Issue list \<Rightarrow> int \<Rightarrow> CriticalityMetrics" where
  "compute_criticality stats labeled issueCount =
     (let maxPR = findMax (PageRank stats);
          maxBW = findMax (Betweenness stats)
      in case fold (crit_step stats) labeled (0, 0, 0, 0, 0) of
           (prSum, bwSum, maxBwLabel, critCount, bottleneckCount) \<Rightarrow>
             let avgPR = (if issueCount > 0 then prSum / real_of_int issueCount else 0);
                 avgBW = (if issueCount > 0 then bwSum / real_of_int issueCount else 0);
                 c1 = (if maxPR > 0 then 0 + trunc ((avgPR / maxPR) * 50) else 0);
                 c2 = (if maxBW > 0 then c1 + trunc ((maxBwLabel / maxBW) * 50) else c1)
             in \<lparr> AvgPageRank = avgPR, AvgBetweenness = avgBW, MaxBetweenness = maxBwLabel,
                  CriticalPathCount = critCount, BottleneckCount = bottleneckCount,
                  CriticalityScore = clampScore c2 \<rparr>)"

text \<open>
  \<open>ComputeLabelHealthForLabel\<close>. The parameter \<open>analyze\<close> stands for
  \<open>NewAnalyzer(issues).Analyze()\<close>, which runs when \<open>stats\<close> is \<open>nil\<close>.
\<close>

definition ComputeLabelHealthForLabel ::
  "(Issue list \<Rightarrow> GraphStats) \<Rightarrow> string \<Rightarrow> Issue list \<Rightarrow> LabelHealthConfig \<Rightarrow> Time
     \<Rightarrow> GraphStats option \<Rightarrow> LabelHealth" where
  "ComputeLabelHealthForLabel analyze label issues cfg now stats =
     (let labeled = filter (\<lambda>iss. label \<in> set (Labels iss)) issues;
          health0 = (NewLabelHealth label)
                      \<lparr> Issues := map ID labeled, lh_IssueCount := int (length labeled) \<rparr>
      in if lh_IssueCount health0 = 0
         then health0 \<lparr> lh_Health := 0, lh_HealthLevel := HealthLevelCritical \<rparr>
         else
           let health1 = fold status_step labeled health0;
               velocity = ComputeVelocityMetrics labeled now;
               freshness = ComputeFreshnessMetrics labeled now (cfg_StaleThresholdDays cfg);
               flow = compute_flow label issues labeled;
               stats' = (case stats of None \<Rightarrow> analyze issues | Some s \<Rightarrow> s);
               crit = compute_criticality stats' labeled (lh_IssueCount health1);
               score = ComputeCompositeHealth (VelocityScore velocity)
                         (FreshnessScore freshness) (FlowScore flow)
                         (CriticalityScore crit) cfg
           in health1 \<lparr> Velocity := velocity, Freshness := freshness, Flow := flow,
                        Criticality := crit, lh_Health := score,
                        lh_HealthLevel := HealthLevelFromScore score \<rparr>)"

subsection \<open>Cross-label flow\<close>

record BlockingPair =
  BlockerID :: string
  BlockedID :: string
  BlockerLabel :: string
  BlockedLabel :: string

record LabelDependency =
  FromLabel :: string
  ToLabel :: string
  ld_IssueCount :: int
  ld_IssueIDs :: "string list"
  BlockingPairs :: "BlockingPair list"

record LabelPath =
  lp_Labels :: "string list"
  Length :: int
  lp_IssueCount :: int
  TotalWeight :: real

record CrossLabelFlow =
  cf_Labels :: "string list"
  FlowMatrix :: "int list list"
  cf_Dependencies :: "LabelDependency list"
  CriticalPaths :: "LabelPath list"
  BottleneckLabels :: "string list"
  TotalCrossLabelDeps :: int

text \<open>
  The state of the aggregation loops: \<open>matrix\<close>, \<open>totalDeps\<close> and \<open>depMap\<close>, the last
  keyed by the pair \<open>(from, to)\<close>.
\<close>

type_synonym xflow_acc =
  "int list list \<times> int \<times> ((string \<times> string) \<times> LabelDependency) list"

text \<open>
  The body of the loops over the cross product of the labels. The indices come from
  \<open>index\<close>, which maps the labels of \<open>labelList\<close> to their positions, so they are
  within the matrix.
\<close>

definition xflow_pair ::
  "(string \<rightharpoonup> nat) \<Rightarrow> Issue \<Rightarrow> Issue \<Rightarrow> string \<Rightarrow> string \<Rightarrow> xflow_acc \<Rightarrow> xflow_acc" where
  "xflow_pair index blocker blocked from to acc =
     (case acc of (matrix, totalDeps, depMap) \<Rightarrow>
        if from = [] \<or> to = [] \<or> from = to then acc
        else
          (case index from of
             None \<Rightarrow> acc
           | Some iFrom \<Rightarrow>
               (case index to of
                  None \<Rightarrow> acc
                | Some iTo \<Rightarrow>
                    let matrix' = matrix[iFrom := (matrix ! iFrom)[iTo := matrix ! iFrom ! iTo + 1]];
                        key = (from, to);
                        entry = (case map_of depMap key of
                                   None \<Rightarrow> \<lparr> FromLabel = fst key, ToLabel = snd key,
                                              ld_IssueCount = 0, ld_IssueIDs = [],
                                              BlockingPairs = [] \<rparr>
                                 | Some e \<Rightarrow> e);
                        entry' = entry \<lparr> ld_IssueCount := ld_IssueCount entry + 1,
                                         ld_IssueIDs := ld_IssueIDs entry @ [ID blocked],
                                         BlockingPairs := BlockingPairs entry @
                                           [\<lparr> BlockerID = ID blocker, BlockedID = ID blocked,
                                              BlockerLabel = from, BlockedLabel = to \<rparr>] \<rparr>
                    in (matrix', totalDeps + 1, AList.update key entry' depMap))))"

definition xflow_dep ::
  "LabelHealthConfig \<Rightarrow> (string \<rightharpoonup> nat) \<Rightarrow> (string \<rightharpoonup> Issue) \<Rightarrow> Issue
     \<Rightarrow> Dependency option \<Rightarrow> xflow_acc \<Rightarrow> xflow_acc" where
  "xflow_dep cfg index issueMap blocked dep acc =
     (case dep of
        None \<Rightarrow> acc
      | Some d \<Rightarrow>
          if DepType d \<noteq> DepBlocks then acc
          else
            (case issueMap (DependsOnID d) of
               None \<Rightarrow> acc
             | Some blocker \<Rightarrow>
                 if \<not> IncludeClosedInFlow cfg \<and> Status blocker = StatusClosed then acc
                 else fold (\<lambda>from. fold (xflow_pair index blocker blocked from) (Labels blocked))
                        (Labels blocker) acc))"

definition xflow_issue ::
  "LabelHealthConfig \<Rightarrow> (string \<rightharpoonup> nat) \<Rightarrow> (string \<rightharpoonup> Issue) \<Rightarrow> Issue
     \<Rightarrow> xflow_acc \<Rightarrow> xflow_acc" where
  "xflow_issue cfg index issueMap blocked acc =
     (if \<not> IncludeClosedInFlow cfg \<and> Status blocked = StatusClosed then acc
      else fold (xflow_dep cfg index issueMap blocked) (Dependencies blocked) acc)"

definition dep_less :: "LabelDependency \<Rightarrow> LabelDependency \<Rightarrow> bool" where
  "dep_less a b =
     (if FromLabel a \<noteq> FromLabel b then FromLabel a < FromLabel b
      else if ToLabel a \<noteq> ToLabel b then ToLabel a < ToLabel b
      else ld_IssueCount a > ld_IssueCount b)"

text \<open>The loop over the rows of the matrix; the state is \<open>outCounts\<close> and \<open>maxOut\<close>.\<close>

definition out_step ::
  "string \<times> int list \<Rightarrow> (string \<times> int) list \<times> int \<Rightarrow> (string \<times> int) list \<times> int" where
  "out_step lr acc =
     (case acc of (outCounts, maxOut) \<Rightarrow>
        let s = sum_list (snd lr)
        in (AList.update (fst lr) s outCounts, (if s > maxOut then s else maxOut)))"

definition ComputeCrossLabelFlow :: "Issue list \<Rightarrow> LabelHealthConfig \<Rightarrow> CrossLabelFlow" where
  "ComputeCrossLabelFlow issues cfg =
     (let labels = ExtractLabels issues;
          labelList = sort (er_Labels labels);
          n = length labelList;
          matrix0 = replicate n (replicate n 0);
          index = fold (\<lambda>il m. m(snd il \<mapsto> fst il)) (enumerate 0 labelList) Map.empty;
          issueMap = fold (\<lambda>iss m. m(ID iss \<mapsto> iss)) issues Map.empty
      in case fold (xflow_issue cfg index issueMap) issues (matrix0, 0, []) of
           (matrix, totalDeps, depMap) \<Rightarrow>
             let deps = sort_Slice dep_less (map snd depMap);
                 (outCounts, maxOut) = fold out_step (zip labelList matrix) ([], 0);
                 bottlenecks = map fst (filter (\<lambda>lc. snd lc = maxOut \<and> snd lc > 0) outCounts)
             in \<lparr> cf_Labels = labelList, FlowMatrix = matrix, cf_Dependencies = deps,
                  CriticalPaths = [], BottleneckLabels = sort bottlenecks,
                  TotalCrossLabelDeps = totalDeps \<rparr>)"

subsection \<open>The orchestrator\<close>

record LabelSummary =
  sm_Label :: string
  sm_IssueCount :: int
  sm_OpenCount :: int
  sm_Health :: int
  sm_HealthLevel :: string
  TopIssue :: string
  sm_NeedsAttention :: bool

record LabelAnalysisResult =
  GeneratedAt :: Time
  TotalLabels :: int
  HealthyCount :: int
  WarningCount :: int
  CriticalCount :: int
  ar_Labels :: "LabelHealth list"
  Summaries :: "LabelSummary list"
  ar_CrossLabelFlow :: "CrossLabelFlow option"
  AttentionNeeded :: "string list"

definition summary_less :: "LabelSummary \<Rightarrow> LabelSummary \<Rightarrow> bool" where
  "summary_less a b =
     (if sm_Health a \<noteq> sm_Health b then sm_Health a > sm_Health b
      else sm_Label a < sm_Label b)"

text \<open>The tally of the level switch, which has no default case.\<close>

definition tally_level :: "string \<Rightarrow> string \<Rightarrow> LabelAnalysisResult \<Rightarrow> LabelAnalysisResult" where
  "tally_level label level result =
     (if level = HealthLevelHealthy then result \<lparr> HealthyCount := HealthyCount result + 1 \<rparr>
      else if level = HealthLevelWarning
        then result \<lparr> WarningCount := WarningCount result + 1,
                      AttentionNeeded := AttentionNeeded result @ [label] \<rparr>
      else if level = HealthLevelCritical
        then result \<lparr> CriticalCount := CriticalCount result + 1,
                      AttentionNeeded := AttentionNeeded result @ [label] \<rparr>
      else result)"

text \<open>The body of the loop over the labels.\<close>

definition all_health_step ::
  "(Issue list \<Rightarrow> GraphStats) \<Rightarrow> Issue list \<Rightarrow> LabelHealthConfig \<Rightarrow> Time \<Rightarrow> GraphStats
     \<Rightarrow> string \<Rightarrow> LabelAnalysisResult \<Rightarrow> LabelAnalysisResult" where
  "all_health_step analyze issues cfg now fullStats label result =
     (let health = ComputeLabelHealthForLabel analyze label issues cfg now (Some fullStats);
          summary = \<lparr> sm_Label = label, sm_IssueCount = lh_IssueCount health,
                      sm_OpenCount = lh_OpenCount health, sm_Health = lh_Health health,
                      sm_HealthLevel = lh_HealthLevel health,
                      TopIssue = (case Issues health of [] \<Rightarrow> [] | i # _ \<Rightarrow> i),
                      sm_NeedsAttention = NeedsAttention health \<rparr>;
          result1 = result \<lparr> ar_Labels := ar_Labels result @ [health],
                             Summaries := Summaries result @ [summary] \<rparr>
      in tally_level label (lh_HealthLevel health) result1)"

definition ComputeAllLabelHealth ::
  "(Issue list \<Rightarrow> GraphStats) \<Rightarrow> Issue list \<Rightarrow> LabelHealthConfig \<Rightarrow> Time
     \<Rightarrow> LabelAnalysisResult" where
  "ComputeAllLabelHealth analyze issues cfg now =
     (let labels = ExtractLabels issues;
          result0 = \<lparr> GeneratedAt = now, TotalLabels = LabelCount labels, HealthyCount = 0,
                      WarningCount = 0, CriticalCount = 0, ar_Labels = [], Summaries = [],
                      ar_CrossLabelFlow = None, AttentionNeeded = [] \<rparr>;
          sorted_labels = sort (er_Labels labels);
          fullStats = analyze issues;
          result1 = fold (all_health_step analyze issues cfg now fullStats) sorted_labels result0
      in result1 \<lparr> Summaries := sort_Slice summary_less (Summaries result1) \<rparr>)"

subsection \<open>Example inputs and auxiliary notions\<close>

text \<open>A score is valid when it lies between 0 and 100.\<close>

definition valid_score :: "int \<Rightarrow> bool" where
  "valid_score v = (0 \<le> v \<and> v \<le> 100)"


text \<open>An issue given by its identifier, labels, status and the issues that block it.\<close>

definition example_issue :: "string \<Rightarrow> string list \<Rightarrow> string \<Rightarrow> string list \<Rightarrow> Issue" where
  "example_issue i ls st deps =
     \<lparr> ID = i, Status = st, Priority = 0, IssueType = [], Labels = ls,
       CreatedAt = 0, UpdatedAt = 0, ClosedAt = None,
       Dependencies = map (\<lambda>d. Some \<lparr> DependsOnID = d, DepType = DepBlocks \<rparr>) deps \<rparr>"

text \<open>The five issues of \<open>TestComputeCrossLabelFlow\<close>.\<close>

definition flow_example :: "Issue list" where
  "flow_example =
     [example_issue ''A'' [''api''] StatusOpen [],
      example_issue ''B'' [''ui''] StatusOpen [''A''],
      example_issue ''C'' [''api'', ''core''] StatusOpen [],
      example_issue ''D'' [''ui'', ''core''] StatusOpen [''C''],
      example_issue ''E'' [''api''] StatusClosed [''A'']]"

text \<open>The four issues of \<open>TestGetLabelCooccurrence\<close>.\<close>

definition cooc_example :: "Issue list" where
  "cooc_example =
     [example_issue ''bv-1'' [''api'', ''bug''] StatusOpen [],
      example_issue ''bv-2'' [''api'', ''bug''] StatusOpen [],
      example_issue ''bv-3'' [''api'', ''feature''] StatusOpen [],
      example_issue ''bv-4'' [''ui''] StatusOpen []]"

text \<open>The non-empty labels that occur on some issue.\<close>

definition all_labels :: "Issue list \<Rightarrow> string set" where
  "all_labels issues = (\<Union>i \<in> set issues. set (Labels i)) - {[]}"

text \<open>Every outer and every inner key of a co-occurrence map lies in \<open>S\<close>.\<close>

definition keys_within :: "string set \<Rightarrow> Cooc \<Rightarrow> bool" where
  "keys_within S cooc = (dom cooc \<subseteq> S \<and> (\<forall>l m. cooc l = Some m \<longrightarrow> dom m \<subseteq> S))"

text \<open>No label is paired with itself.\<close>

definition no_self :: "Cooc \<Rightarrow> bool" where
  "no_self cooc = (\<forall>l m. cooc l = Some m \<longrightarrow> m l = None)"










text \<open>
  The order of the dependency list in the words of the specification: by \<open>FromLabel\<close>
  ascending, then by \<open>ToLabel\<close> ascending, then by \<open>IssueCount\<close> descending.
\<close>

definition dep_order :: "LabelDependency \<Rightarrow> LabelDependency \<Rightarrow> bool" where
  "dep_order a b =
     (FromLabel a < FromLabel b \<or>
      (FromLabel a = FromLabel b \<and>
         (ToLabel a < ToLabel b \<or>
          (ToLabel a = ToLabel b \<and> ld_IssueCount b \<le> ld_IssueCount a))))"

text \<open>A label needs attention when its level is warning or critical.\<close>

definition warning_or_critical :: "LabelHealth \<Rightarrow> bool" where
  "warning_or_critical h =
     (lh_HealthLevel h = HealthLevelWarning \<or> lh_HealthLevel h = HealthLevelCritical)"

section \<open>Properties\<close>

subsection \<open>Sorting with a comparator\<close>

lemma set_insort_less: "set (insort_less lt x xs) = insert x (set xs)"
  by (induction xs) auto

lemma set_sort_Slice: "set (sort_Slice lt xs) = set xs"
  unfolding sort_Slice_def by (induction xs) (auto simp: set_insort_less)

lemma length_insort_less: "length (insort_less lt x xs) = Suc (length xs)"
  by (induction xs) auto

lemma length_sort_Slice: "length (sort_Slice lt xs) = length xs"
  unfolding sort_Slice_def by (induction xs) (auto simp: length_insort_less)

subsection \<open>The keys of the label catalog\<close>

lemma extract_label_keys:
  "extract_label issue l (ls, st) = (ls', st') \<Longrightarrow>
     fst ` set ls' = fst ` set ls \<union> (if l = [] then {} else {l}) \<and>
     fst ` set st' = fst ` set st \<union> (if l = [] then {} else {l})"
  by (cases "l = []") (clarsimp simp: extract_label_def Let_def AList.dom_update)+

lemma fold_extract_label_keys:
  "fold (extract_label issue) lbls (ls, st) = (ls', st') \<Longrightarrow>
     fst ` set ls' = fst ` set ls \<union> (set lbls - {[]}) \<and>
     fst ` set st' = fst ` set st \<union> (set lbls - {[]})"
proof (induction lbls arbitrary: ls st)
  case Nil
  then show ?case by simp
next
  case (Cons l lbls)
  obtain ls1 st1 where s: "extract_label issue l (ls, st) = (ls1, st1)"
    by (cases "extract_label issue l (ls, st)")
  from Cons.prems s have "fold (extract_label issue) lbls (ls1, st1) = (ls', st')" by simp
  from Cons.IH[OF this] extract_label_keys[OF s] show ?case by auto
qed

lemma extract_issue_keys:
  "extract_issue issue (ls, st, u) = (ls', st', u') \<Longrightarrow>
     fst ` set ls' = fst ` set ls \<union> (set (Labels issue) - {[]}) \<and>
     fst ` set st' = fst ` set st \<union> (set (Labels issue) - {[]})"
  by (auto simp: extract_issue_def Let_def split: prod.splits dest!: fold_extract_label_keys)

lemma fold_extract_issue_keys:
  "fold extract_issue issues (ls, st, u) = (ls', st', u') \<Longrightarrow>
     fst ` set ls' = fst ` set ls \<union> all_labels issues \<and>
     fst ` set st' = fst ` set st \<union> all_labels issues"
proof (induction issues arbitrary: ls st u)
  case Nil
  then show ?case by (simp add: all_labels_def)
next
  case (Cons i issues)
  obtain ls1 st1 u1 where s: "extract_issue i (ls, st, u) = (ls1, st1, u1)"
    by (cases "extract_issue i (ls, st, u)")
  from Cons.prems s have "fold extract_issue issues (ls1, st1, u1) = (ls', st', u')" by simp
  from Cons.IH[OF this] extract_issue_keys[OF s] show ?case by (auto simp: all_labels_def)
qed

lemma set_sortLabelsByCount: "set (sortLabelsByCount st) = fst ` set st"
  by (force simp: sortLabelsByCount_def set_sort_Slice)

lemma ExtractLabels_keys:
  "set (er_Labels (ExtractLabels issues)) = all_labels issues \<and>
   fst ` set (Stats (ExtractLabels issues)) = all_labels issues \<and>
   set (TopLabels (ExtractLabels issues)) = all_labels issues"
proof (cases "issues = []")
  case True
  then show ?thesis by (simp add: ExtractLabels_def all_labels_def)
next
  case False
  obtain ls st u where s: "fold extract_issue issues ([], [], 0) = (ls, st, u)"
    by (cases "fold extract_issue issues ([], [], 0)")
  from fold_extract_issue_keys[OF s] False s show ?thesis
    by (simp add: ExtractLabels_def Let_def set_sortLabelsByCount)
qed

lemma sorted_er_Labels: "sorted (er_Labels (ExtractLabels issues))"
  by (cases "fold extract_issue issues ([], [], 0)") (simp add: ExtractLabels_def Let_def)

lemma LabelCount_length:
  "LabelCount (ExtractLabels issues) = int (length (er_Labels (ExtractLabels issues)))"
  by (cases "fold extract_issue issues ([], [], 0)") (simp add: ExtractLabels_def Let_def)

subsection \<open>The keys of the co-occurrence map\<close>

lemma keys_within_cooc_inc:
  "keys_within S c \<Longrightarrow> k2 \<in> S \<Longrightarrow> keys_within S (cooc_inc k1 k2 c)"
  unfolding keys_within_def cooc_inc_def
  by (cases "c k1") (auto split: if_splits)

lemma keys_within_init:
  "keys_within S c \<Longrightarrow> k \<in> S \<Longrightarrow>
     keys_within S (if c k = None then c(k \<mapsto> Map.empty) else c)"
  unfolding keys_within_def by (auto split: if_splits)

lemma keys_within_cooc_pair:
  assumes "keys_within S c" "a \<in> S" "b \<in> S"
  shows "keys_within S (cooc_pair a b c)"
  unfolding cooc_pair_def Let_def
  using assms by (intro keys_within_cooc_inc keys_within_init) auto

lemma keys_within_fold_pair:
  "keys_within S c \<Longrightarrow> a \<in> S \<Longrightarrow> set bs \<subseteq> S \<Longrightarrow> keys_within S (fold (cooc_pair a) bs c)"
  by (induction bs arbitrary: c) (auto simp: keys_within_cooc_pair)

lemma keys_within_cooc_labels:
  "keys_within S c \<Longrightarrow> set ls \<subseteq> S \<Longrightarrow> keys_within S (cooc_labels ls c)"
  by (induction ls arbitrary: c) (auto simp: keys_within_fold_pair)

lemma keys_within_fold_issues:
  "keys_within S c \<Longrightarrow> (\<Union>i \<in> set issues. set (Labels i)) \<subseteq> S \<Longrightarrow>
     keys_within S (fold (\<lambda>issue. cooc_labels (Labels issue)) issues c)"
  by (induction issues arbitrary: c) (auto simp: keys_within_cooc_labels)

lemma keys_within_GetLabelCooccurrence:
  "keys_within (\<Union>i \<in> set issues. set (Labels i)) (GetLabelCooccurrence issues)"
  unfolding GetLabelCooccurrence_def
  by (rule keys_within_fold_issues) (auto simp: keys_within_def)

lemma no_self_cooc_inc:
  "no_self c \<Longrightarrow> k1 \<noteq> k2 \<Longrightarrow> no_self (cooc_inc k1 k2 c)"
  unfolding no_self_def cooc_inc_def
  by (cases "c k1") (auto split: if_splits)

lemma no_self_init:
  "no_self c \<Longrightarrow> no_self (if c k = None then c(k \<mapsto> Map.empty) else c)"
  unfolding no_self_def by (auto split: if_splits)

lemma no_self_cooc_pair:
  assumes "no_self c" "a \<noteq> b"
  shows "no_self (cooc_pair a b c)"
  unfolding cooc_pair_def Let_def
  using assms by (intro no_self_cooc_inc no_self_init) auto

lemma no_self_fold_pair:
  "no_self c \<Longrightarrow> a \<notin> set bs \<Longrightarrow> no_self (fold (cooc_pair a) bs c)"
  by (induction bs arbitrary: c) (auto simp: no_self_cooc_pair)

lemma no_self_cooc_labels:
  "no_self c \<Longrightarrow> distinct ls \<Longrightarrow> no_self (cooc_labels ls c)"
  by (induction ls arbitrary: c) (auto simp: no_self_fold_pair)

lemma no_self_fold_issues:
  "no_self c \<Longrightarrow> (\<forall>i \<in> set issues. distinct (Labels i)) \<Longrightarrow>
     no_self (fold (\<lambda>issue. cooc_labels (Labels issue)) issues c)"
  by (induction issues arbitrary: c) (auto simp: no_self_cooc_labels)

lemma no_self_GetLabelCooccurrence:
  "(\<forall>i \<in> set issues. distinct (Labels i)) \<Longrightarrow> no_self (GetLabelCooccurrence issues)"
  unfolding GetLabelCooccurrence_def
  by (rule no_self_fold_issues) (auto simp: no_self_def)

lemma example_issue_simps:
  "Labels (example_issue i ls st deps) = ls"
  "ID (example_issue i ls st deps) = i"
  "Status (example_issue i ls st deps) = st"
  by (simp_all add: example_issue_def)

subsection \<open>The cross-label flow of the five example issues\<close>

text \<open>
  Claim C1. For the five issues A (label api, open), B (label ui, open, blocked by A),
  C (labels api and core, open), D (labels ui and core, open, blocked by C) and
  E (label api, closed, blocked by A), \<open>ComputeCrossLabelFlow\<close> under the default
  configuration, whose \<open>IncludeClosedInFlow\<close> is false, returns
  \<open>TotalCrossLabelDeps = 4\<close>; the labels are api, core and ui in this order, so that
  the entry of the matrix from api to ui is the one at row 0 and column 2, and it is 2;
  and api is among the bottleneck labels.
\<close>

theorem C1_cross_label_flow_example:
  "TotalCrossLabelDeps (ComputeCrossLabelFlow flow_example DefaultLabelHealthConfig) = 4 \<and>
   cf_Labels (ComputeCrossLabelFlow flow_example DefaultLabelHealthConfig)
     = [''api'', ''core'', ''ui''] \<and>
   FlowMatrix (ComputeCrossLabelFlow flow_example DefaultLabelHealthConfig) ! 0 ! 2 = 2 \<and>
   ''api'' \<in> set (BottleneckLabels (ComputeCrossLabelFlow flow_example DefaultLabelHealthConfig)) \<and>
   \<not> IncludeClosedInFlow DefaultLabelHealthConfig"
proof -
  have 1: "TotalCrossLabelDeps (ComputeCrossLabelFlow flow_example DefaultLabelHealthConfig) = 4"
    by code_simp
  have 2: "cf_Labels (ComputeCrossLabelFlow flow_example DefaultLabelHealthConfig)
     = [''api'', ''core'', ''ui'']"
    by code_simp
  have 3: "FlowMatrix (ComputeCrossLabelFlow flow_example DefaultLabelHealthConfig)
     = [[0, 1, 2], [0, 0, 1], [0, 0, 0]]"
    by code_simp
  have 4: "BottleneckLabels (ComputeCrossLabelFlow flow_example DefaultLabelHealthConfig)
     = [''api'']"
    by code_simp
  have 5: "\<not> IncludeClosedInFlow DefaultLabelHealthConfig"
    by (simp add: DefaultLabelHealthConfig_def)
  show ?thesis
    unfolding 1 2 3 4 using 5 by simp
qed

subsection \<open>The composite score\<close>




subsection \<open>The empty label\<close>

lemma keys_within_outside:
  assumes "keys_within S c" "k \<notin> S"
  shows "c k = None \<and> cooc_entry c l k = None"
proof -
  from assms have 1: "c k = None" unfolding keys_within_def by blast
  have 2: "cooc_entry c l k = None"
  proof (cases "c l")
    case None
    then show ?thesis by (simp add: cooc_entry_def)
  next
    case (Some m)
    with assms have "k \<notin> dom m" unfolding keys_within_def by blast
    with Some show ?thesis by (simp add: cooc_entry_def domIff)
  qed
  from 1 2 show ?thesis ..
qed

text \<open>
  The co-occurrence map does not filter the empty label: an issue labelled with the empty
  string and with api gives the outer key \<open>\<close> and the inner key \<open>\<close> under api.
\<close>

theorem C2_empty_label_counterexample:
  "GetLabelCooccurrence [example_issue ''bv-1'' ['''', ''api''] StatusOpen []] '''' \<noteq> None \<and>
   cooc_entry (GetLabelCooccurrence [example_issue ''bv-1'' ['''', ''api''] StatusOpen []])
     ''api'' '''' = Some 1"
  by (simp add: GetLabelCooccurrence_def example_issue_simps cooc_pair_def cooc_inc_def
      cooc_entry_def Let_def)

text \<open>
  Claim C2, as amended. For every issue collection the empty label is absent from the
  \<open>Labels\<close>, the \<open>Stats\<close> and the \<open>TopLabels\<close> of \<open>ExtractLabels\<close>; and when no
  issue carries an empty label, it is neither an outer nor an inner key of the map
  returned by \<open>GetLabelCooccurrence\<close>.
\<close>

theorem C2_empty_label_excluded:
  "[] \<notin> set (er_Labels (ExtractLabels issues)) \<and>
   [] \<notin> fst ` set (Stats (ExtractLabels issues)) \<and>
   [] \<notin> set (TopLabels (ExtractLabels issues)) \<and>
   ((\<forall>issue \<in> set issues. [] \<notin> set (Labels issue)) \<longrightarrow>
      GetLabelCooccurrence issues [] = None \<and>
      cooc_entry (GetLabelCooccurrence issues) l [] = None)"
proof -
  have a: "[] \<notin> all_labels issues" by (simp add: all_labels_def)
  have b: "GetLabelCooccurrence issues [] = None \<and>
      cooc_entry (GetLabelCooccurrence issues) l [] = None"
    if h: "\<forall>issue \<in> set issues. [] \<notin> set (Labels issue)"
  proof -
    from h have n: "[] \<notin> (\<Union>i \<in> set issues. set (Labels i))" by auto
    from keys_within_outside[OF keys_within_GetLabelCooccurrence n] show ?thesis .
  qed
  from a b ExtractLabels_keys[of issues] show ?thesis by simp
qed

theorem C2_empty_label_excluded_witness:
  "list_all (\<lambda>issue. [] \<notin> set (Labels issue)) cooc_example \<and>
   [] \<notin> set (er_Labels (ExtractLabels cooc_example)) \<and>
   [] \<notin> fst ` set (Stats (ExtractLabels cooc_example)) \<and>
   [] \<notin> set (TopLabels (ExtractLabels cooc_example)) \<and>
   GetLabelCooccurrence cooc_example [] = None \<and>
   cooc_entry (GetLabelCooccurrence cooc_example) ''api'' [] = None"
proof -
  have h: "\<forall>issue \<in> set cooc_example. [] \<notin> set (Labels issue)"
    by (simp add: cooc_example_def example_issue_simps)
  from C2_empty_label_excluded[of cooc_example "''api''"] h show ?thesis
    unfolding list_all_iff by blast
qed

subsection \<open>Self pairs in the co-occurrence map\<close>

text \<open>
  A label that occurs twice on one issue is paired with itself, and both increments hit
  the same entry.
\<close>

theorem C3_self_pair_counterexample:
  "cooc_entry (GetLabelCooccurrence [example_issue ''bv-1'' [''api'', ''api''] StatusOpen []])
     ''api'' ''api'' = Some 2"
  by (simp add: GetLabelCooccurrence_def example_issue_simps cooc_pair_def cooc_inc_def
      cooc_entry_def Let_def)

text \<open>
  Claim C3, as amended. For every issue collection in which no issue lists a label more
  than once, the map returned by \<open>GetLabelCooccurrence\<close> pairs no label with itself:
  the entry \<open>cooc[l][l]\<close> is absent for every label \<open>l\<close>.
\<close>

theorem C3_no_self_pair:
  assumes "\<forall>issue \<in> set issues. distinct (Labels issue)"
  shows "cooc_entry (GetLabelCooccurrence issues) l l = None"
  using no_self_GetLabelCooccurrence[OF assms]
  unfolding no_self_def cooc_entry_def
  by (cases "GetLabelCooccurrence issues l") auto

theorem C3_no_self_pair_witness:
  "list_all (\<lambda>issue. distinct (Labels issue)) cooc_example \<and>
   cooc_entry (GetLabelCooccurrence cooc_example) ''api'' ''api'' = None"
proof -
  have h: "\<forall>issue \<in> set cooc_example. distinct (Labels issue)"
    by (simp add: cooc_example_def example_issue_simps)
  from h C3_no_self_pair[OF h, of "''api''"] show ?thesis
    unfolding list_all_iff by (rule conjI)
qed

subsection \<open>The range of the scores\<close>

lemma clampScore_valid: "valid_score (clampScore v)"
  by (simp add: clampScore_def valid_score_def)

lemma velocity_score0_valid:
  "0 < c \<Longrightarrow> valid_score (trunc (minFloat 100 (real_of_int c * 10)))"
  by (auto simp: valid_score_def trunc_def minFloat_def floor_le_iff le_floor_iff)

lemma VelocityScore_valid: "valid_score (VelocityScore (ComputeVelocityMetrics issues now))"
proof -
  define a where "a = fold (velocity_step now) issues velocity_init"
  define score0 where "score0 = (if closed30 a > 0
                    then trunc (minFloat 100 (real_of_int (closed30 a) * 10))
                    else 0)"
  have s0: "valid_score score0"
    unfolding score0_def using velocity_score0_valid[of "closed30 a"]
    by (simp add: valid_score_def)
  have "VelocityScore (ComputeVelocityMetrics issues now) = score0 \<or>
        VelocityScore (ComputeVelocityMetrics issues now) = clampScore (score0 + 10)"
    unfolding ComputeVelocityMetrics_def Let_def a_def[symmetric] score0_def[symmetric]
    by (simp split: prod.splits)
  with s0 clampScore_valid show ?thesis by auto
qed

lemma FreshnessScore_valid:
  "valid_score (FreshnessScore (ComputeFreshnessMetrics issues now staleDays))"
  by (simp add: ComputeFreshnessMetrics_def Let_def clampScore_valid)

lemma ComputeCompositeHealth_valid:
  "valid_score (ComputeCompositeHealth v f fl c cfg)"
  by (simp add: ComputeCompositeHealth_def Let_def clampScore_valid)

lemma FlowScore_compute_flow: "valid_score (FlowScore (compute_flow label issues labeled))"
  by (simp add: compute_flow_def clampScore_valid split: prod.splits)

lemma CriticalityScore_compute: "valid_score (CriticalityScore (compute_criticality stats labeled n))"
  by (simp add: compute_criticality_def Let_def clampScore_valid split: prod.splits)

lemma status_step_other:
  "lh_IssueCount (status_step x h) = lh_IssueCount h \<and>
   lh_Label (status_step x h) = lh_Label h \<and>
   Issues (status_step x h) = Issues h"
  by (simp add: status_step_def)

lemma fold_status_step_other:
  "lh_IssueCount (fold status_step xs h) = lh_IssueCount h \<and>
   lh_Label (fold status_step xs h) = lh_Label h \<and>
   Issues (fold status_step xs h) = Issues h"
proof (induction xs arbitrary: h)
  case Nil
  then show ?case by simp
next
  case (Cons x xs)
  show ?case
    using Cons.IH[of "status_step x h"] status_step_other[of x h] by simp
qed

lemma ComputeLabelHealthForLabel_scores:
  "valid_score (VelocityScore (Velocity (ComputeLabelHealthForLabel analyze label issues cfg now stats))) \<and>
   valid_score (FreshnessScore (Freshness (ComputeLabelHealthForLabel analyze label issues cfg now stats))) \<and>
   valid_score (FlowScore (Flow (ComputeLabelHealthForLabel analyze label issues cfg now stats))) \<and>
   valid_score (CriticalityScore (Criticality (ComputeLabelHealthForLabel analyze label issues cfg now stats))) \<and>
   valid_score (lh_Health (ComputeLabelHealthForLabel analyze label issues cfg now stats))"
proof (cases "filter (\<lambda>iss. label \<in> set (Labels iss)) issues = []")
  case True
  then show ?thesis
    by (simp add: ComputeLabelHealthForLabel_def Let_def NewLabelHealth_def valid_score_def)
next
  case False
  then show ?thesis
    by (simp add: ComputeLabelHealthForLabel_def Let_def VelocityScore_valid
        FreshnessScore_valid FlowScore_compute_flow CriticalityScore_compute
        ComputeCompositeHealth_valid)
qed

text \<open>
  Claim C4. For every issue collection, reference time, stale threshold and
  configuration, also one whose weights do not sum to 1, every score lies between 0 and
  100: the \<open>VelocityScore\<close> of \<open>ComputeVelocityMetrics\<close>, the \<open>FreshnessScore\<close> of
  \<open>ComputeFreshnessMetrics\<close>, the \<open>FlowScore\<close> and the \<open>CriticalityScore\<close> set by
  \<open>ComputeLabelHealthForLabel\<close>, together with the velocity score, the freshness score
  and the health it stores, and the result of \<open>ComputeCompositeHealth\<close>.
\<close>

theorem C4_scores_in_range:
  "valid_score (VelocityScore (ComputeVelocityMetrics issues now)) \<and>
   valid_score (FreshnessScore (ComputeFreshnessMetrics issues now staleDays)) \<and>
   valid_score (FlowScore (Flow (ComputeLabelHealthForLabel analyze label issues cfg now stats))) \<and>
   valid_score (CriticalityScore
     (Criticality (ComputeLabelHealthForLabel analyze label issues cfg now stats))) \<and>
   valid_score (VelocityScore
     (Velocity (ComputeLabelHealthForLabel analyze label issues cfg now stats))) \<and>
   valid_score (FreshnessScore
     (Freshness (ComputeLabelHealthForLabel analyze label issues cfg now stats))) \<and>
   valid_score (lh_Health (ComputeLabelHealthForLabel analyze label issues cfg now stats)) \<and>
   valid_score (ComputeCompositeHealth velocity freshness flow criticality cfg')"
  using VelocityScore_valid FreshnessScore_valid ComputeLabelHealthForLabel_scores
    ComputeCompositeHealth_valid by blast

subsection \<open>The status counters of a label\<close>

lemma status_step_counts:
  "lh_ClosedCount (status_step x h) =
     lh_ClosedCount h + (if Status x = StatusClosed then 1 else 0) \<and>
   lh_Blocked (status_step x h) =
     lh_Blocked h + (if Status x = StatusBlocked then 1 else 0) \<and>
   lh_OpenCount (status_step x h) =
     lh_OpenCount h + (if Status x \<noteq> StatusClosed \<and> Status x \<noteq> StatusBlocked then 1 else 0)"
proof -
  have d: "StatusInProgress \<noteq> StatusClosed" "StatusInProgress \<noteq> StatusBlocked"
    "StatusBlocked \<noteq> StatusClosed"
    by (simp_all add: StatusInProgress_def StatusClosed_def StatusBlocked_def)
  then show ?thesis by (simp add: status_step_def)
qed

lemma fold_status_step_counts:
  "lh_ClosedCount (fold status_step xs h) =
     lh_ClosedCount h + int (length (filter (\<lambda>i. Status i = StatusClosed) xs)) \<and>
   lh_Blocked (fold status_step xs h) =
     lh_Blocked h + int (length (filter (\<lambda>i. Status i = StatusBlocked) xs)) \<and>
   lh_OpenCount (fold status_step xs h) =
     lh_OpenCount h + int (length (filter (\<lambda>i. Status i \<noteq> StatusClosed \<and> Status i \<noteq> StatusBlocked) xs))"
proof (induction xs arbitrary: h)
  case Nil
  then show ?case by simp
next
  case (Cons x xs)
  show ?case
    using Cons.IH[of "status_step x h"] status_step_counts[of x h] by simp
qed

lemma length_filter_three:
  "length (filter (\<lambda>i. P i \<and> Q i) xs) + length (filter (\<lambda>i. \<not> P i) xs) + length (filter (\<lambda>i. P i \<and> \<not> Q i) xs) = length xs"
  by (induction xs) auto

text \<open>
  Claim C10. In the \<open>LabelHealth\<close> returned by \<open>ComputeLabelHealthForLabel\<close> the three
  counters add up to the number of member issues:
  \<open>OpenCount + ClosedCount + Blocked = IssueCount\<close>. Every member issue increments
  exactly one of them: \<open>ClosedCount\<close> when it is closed, \<open>Blocked\<close> when it is blocked,
  and \<open>OpenCount\<close> for every other status, in_progress, open and unknown ones alike.
  This holds for every label, also one without member issues, where all four are 0.
\<close>

theorem C10_status_counts:
  "lh_OpenCount (ComputeLabelHealthForLabel analyze label issues cfg now stats) +
   lh_ClosedCount (ComputeLabelHealthForLabel analyze label issues cfg now stats) +
   lh_Blocked (ComputeLabelHealthForLabel analyze label issues cfg now stats) =
     lh_IssueCount (ComputeLabelHealthForLabel analyze label issues cfg now stats) \<and>
   lh_IssueCount (ComputeLabelHealthForLabel analyze label issues cfg now stats) =
     int (length (GetLabelIssues issues label)) \<and>
   lh_ClosedCount (ComputeLabelHealthForLabel analyze label issues cfg now stats) =
     int (length (filter (\<lambda>i. Status i = StatusClosed) (GetLabelIssues issues label))) \<and>
   lh_Blocked (ComputeLabelHealthForLabel analyze label issues cfg now stats) =
     int (length (filter (\<lambda>i. Status i = StatusBlocked) (GetLabelIssues issues label))) \<and>
   lh_OpenCount (ComputeLabelHealthForLabel analyze label issues cfg now stats) =
     int (length (filter (\<lambda>i. Status i \<noteq> StatusClosed \<and> Status i \<noteq> StatusBlocked)
       (GetLabelIssues issues label)))"
proof -
  define labeled where "labeled = filter (\<lambda>iss. label \<in> set (Labels iss)) issues"
  define h where "h = ComputeLabelHealthForLabel analyze label issues cfg now stats"
  have g: "GetLabelIssues issues label = labeled"
    by (simp add: GetLabelIssues_def labeled_def)
  have n: "lh_IssueCount h = int (length labeled)"
    unfolding h_def ComputeLabelHealthForLabel_def Let_def labeled_def[symmetric]
    by (simp add: fold_status_step_other NewLabelHealth_def)
  have c: "lh_ClosedCount h = int (length (filter (\<lambda>i. Status i = StatusClosed) labeled))"
    unfolding h_def ComputeLabelHealthForLabel_def Let_def labeled_def[symmetric]
    by (simp add: fold_status_step_counts NewLabelHealth_def)
  have b: "lh_Blocked h = int (length (filter (\<lambda>i. Status i = StatusBlocked) labeled))"
    unfolding h_def ComputeLabelHealthForLabel_def Let_def labeled_def[symmetric]
    by (simp add: fold_status_step_counts NewLabelHealth_def)
  have p: "lh_OpenCount h = int (length (filter (\<lambda>i. Status i \<noteq> StatusClosed \<and> Status i \<noteq> StatusBlocked) labeled))"
    unfolding h_def ComputeLabelHealthForLabel_def Let_def labeled_def[symmetric]
    by (simp add: fold_status_step_counts NewLabelHealth_def)
  have d: "StatusBlocked \<noteq> StatusClosed"
    by (simp add: StatusClosed_def StatusBlocked_def)
  have e: "filter (\<lambda>i. Status i = StatusBlocked) labeled = filter (\<lambda>i. Status i \<noteq> StatusClosed \<and> \<not> Status i \<noteq> StatusBlocked) labeled"
    using d by (intro filter_cong) auto
  have s: "lh_OpenCount h + lh_ClosedCount h + lh_Blocked h = lh_IssueCount h"
    using length_filter_three[of "\<lambda>i. Status i \<noteq> StatusClosed" "\<lambda>i. Status i \<noteq> StatusBlocked" labeled]
    unfolding n c b p e by simp
  from s n c b p show ?thesis unfolding g h_def by blast
qed

subsection \<open>The velocity trend\<close>










subsection \<open>The freshness score\<close>












subsection \<open>The order of the lists of the cross-label flow\<close>

lemma sorted_wrt_insort_less:
  assumes tr: "\<And>a b c. lt a b \<Longrightarrow> lt b c \<Longrightarrow> lt a c"
    and asym: "\<And>a b. lt a b \<Longrightarrow> \<not> lt b a"
  shows "sorted_wrt (\<lambda>a b. \<not> lt b a) xs \<Longrightarrow>
         sorted_wrt (\<lambda>a b. \<not> lt b a) (insort_less lt x xs)"
proof (induction xs)
  case Nil
  then show ?case by simp
next
  case (Cons y ys)
  show ?case
  proof (cases "lt x y")
    case True
    have "\<not> lt z x" if "z \<in> set (y # ys)" for z
    proof
      assume zx: "lt z x"
      from zx True have zy: "lt z y" by (rule tr)
      from that Cons.prems have "z = y \<or> \<not> lt z y" by auto
      with zy have "z = y" by blast
      with zy asym show False by blast
    qed
    with True Cons.prems show ?thesis by simp
  next
    case False
    with Cons show ?thesis by (auto simp: set_insort_less)
  qed
qed

lemma sorted_wrt_sort_Slice:
  assumes tr: "\<And>a b c. lt a b \<Longrightarrow> lt b c \<Longrightarrow> lt a c"
    and asym: "\<And>a b. lt a b \<Longrightarrow> \<not> lt b a"
  shows "sorted_wrt (\<lambda>a b. \<not> lt b a) (sort_Slice lt xs)"
  unfolding sort_Slice_def
  by (induction xs) (simp_all add: sorted_wrt_insort_less[where lt = lt, OF tr asym])

lemma dep_less_trans: "dep_less a b \<Longrightarrow> dep_less b c \<Longrightarrow> dep_less a c"
  unfolding dep_less_def by (auto split: if_splits)

lemma dep_less_asym: "dep_less a b \<Longrightarrow> \<not> dep_less b a"
  unfolding dep_less_def by (auto split: if_splits)

lemma not_dep_less_order: "(\<not> dep_less b a) = dep_order a b"
  unfolding dep_less_def dep_order_def by auto

lemma sorted_deps: "sorted_wrt dep_order (sort_Slice dep_less xs)"
  using sorted_wrt_sort_Slice[of dep_less xs, OF dep_less_trans dep_less_asym]
  by (simp add: not_dep_less_order)

text \<open>
  Claim C8. In every \<open>CrossLabelFlow\<close> returned by \<open>ComputeCrossLabelFlow\<close>, for every
  issue collection and configuration, the \<open>Labels\<close> and the \<open>BottleneckLabels\<close> are
  sorted lexicographically, and the \<open>Dependencies\<close> are sorted by \<open>FromLabel\<close>
  ascending, then \<open>ToLabel\<close> ascending, then \<open>IssueCount\<close> descending.
\<close>

theorem C8_flow_lists_sorted:
  "sorted (cf_Labels (ComputeCrossLabelFlow issues cfg)) \<and>
   sorted (BottleneckLabels (ComputeCrossLabelFlow issues cfg)) \<and>
   sorted_wrt dep_order (cf_Dependencies (ComputeCrossLabelFlow issues cfg))"
  by (simp add: ComputeCrossLabelFlow_def Let_def sorted_deps split: prod.splits)

subsection \<open>The tallies of the orchestrator\<close>

lemma level_distinct:
  "HealthLevelHealthy \<noteq> HealthLevelWarning"
  "HealthLevelHealthy \<noteq> HealthLevelCritical"
  "HealthLevelWarning \<noteq> HealthLevelCritical"
  by (simp_all add: HealthLevelHealthy_def HealthLevelWarning_def HealthLevelCritical_def)

lemma HealthLevelFromScore_cases:
  "HealthLevelFromScore s = HealthLevelHealthy \<or>
   HealthLevelFromScore s = HealthLevelWarning \<or>
   HealthLevelFromScore s = HealthLevelCritical"
  by (simp add: HealthLevelFromScore_def)

lemma ComputeLabelHealthForLabel_level:
  "lh_HealthLevel (ComputeLabelHealthForLabel analyze label issues cfg now stats) = HealthLevelHealthy \<or>
   lh_HealthLevel (ComputeLabelHealthForLabel analyze label issues cfg now stats) = HealthLevelWarning \<or>
   lh_HealthLevel (ComputeLabelHealthForLabel analyze label issues cfg now stats) = HealthLevelCritical"
  using HealthLevelFromScore_cases
  by (simp add: ComputeLabelHealthForLabel_def Let_def)

lemma ComputeLabelHealthForLabel_label:
  "lh_Label (ComputeLabelHealthForLabel analyze label issues cfg now stats) = label"
  by (simp add: ComputeLabelHealthForLabel_def Let_def NewLabelHealth_def fold_status_step_other)

lemma tally_level_fields:
  assumes "level = HealthLevelHealthy \<or> level = HealthLevelWarning \<or> level = HealthLevelCritical"
  shows "HealthyCount (tally_level label level r) + WarningCount (tally_level label level r) +
           CriticalCount (tally_level label level r) =
           HealthyCount r + WarningCount r + CriticalCount r + 1 \<and>
         AttentionNeeded (tally_level label level r) =
           AttentionNeeded r @
             (if level = HealthLevelWarning \<or> level = HealthLevelCritical then [label] else []) \<and>
         ar_Labels (tally_level label level r) = ar_Labels r \<and>
         TotalLabels (tally_level label level r) = TotalLabels r"
  using assms level_distinct by (auto simp: tally_level_def)

lemma all_health_step_fields:
  "HealthyCount (all_health_step analyze issues cfg now fs label r) +
     WarningCount (all_health_step analyze issues cfg now fs label r) +
     CriticalCount (all_health_step analyze issues cfg now fs label r) =
     HealthyCount r + WarningCount r + CriticalCount r + 1 \<and>
   AttentionNeeded (all_health_step analyze issues cfg now fs label r) =
     AttentionNeeded r @
       (if warning_or_critical (ComputeLabelHealthForLabel analyze label issues cfg now (Some fs))
        then [label] else []) \<and>
   ar_Labels (all_health_step analyze issues cfg now fs label r) =
     ar_Labels r @ [ComputeLabelHealthForLabel analyze label issues cfg now (Some fs)] \<and>
   TotalLabels (all_health_step analyze issues cfg now fs label r) = TotalLabels r"
  unfolding all_health_step_def Let_def warning_or_critical_def
  using tally_level_fields[OF ComputeLabelHealthForLabel_level]
  by simp

lemma fold_all_health_step_fields:
  "HealthyCount (fold (all_health_step analyze issues cfg now fs) ls r) +
     WarningCount (fold (all_health_step analyze issues cfg now fs) ls r) +
     CriticalCount (fold (all_health_step analyze issues cfg now fs) ls r) =
     HealthyCount r + WarningCount r + CriticalCount r + int (length ls) \<and>
   AttentionNeeded (fold (all_health_step analyze issues cfg now fs) ls r) =
     AttentionNeeded r @
       filter (\<lambda>l. warning_or_critical
                     (ComputeLabelHealthForLabel analyze l issues cfg now (Some fs))) ls \<and>
   ar_Labels (fold (all_health_step analyze issues cfg now fs) ls r) =
     ar_Labels r @ map (\<lambda>l. ComputeLabelHealthForLabel analyze l issues cfg now (Some fs)) ls \<and>
   TotalLabels (fold (all_health_step analyze issues cfg now fs) ls r) = TotalLabels r"
proof (induction ls arbitrary: r)
  case Nil
  then show ?case by simp
next
  case (Cons l ls)
  show ?case
    using Cons.IH[of "all_health_step analyze issues cfg now fs l r"]
      all_health_step_fields[of analyze issues cfg now fs l r]
    by simp
qed

lemma map_label_filter_health:
  "map lh_Label (filter warning_or_critical
      (map (\<lambda>l. ComputeLabelHealthForLabel analyze l issues cfg now stats) ls)) =
   filter (\<lambda>l. warning_or_critical (ComputeLabelHealthForLabel analyze l issues cfg now stats)) ls"
  by (induction ls) (simp_all add: ComputeLabelHealthForLabel_label)

lemma map_label_health:
  "map (lh_Label \<circ> (\<lambda>l. ComputeLabelHealthForLabel analyze l issues cfg now stats)) ls = ls"
  by (induction ls) (simp_all add: ComputeLabelHealthForLabel_label)

lemma sort_er_Labels: "sort (er_Labels (ExtractLabels issues)) = er_Labels (ExtractLabels issues)"
  using sorted_er_Labels by (simp add: sorted_sort_id)

text \<open>
  Claim C9. For every issue collection, configuration and reference time, the result of
  \<open>ComputeAllLabelHealth\<close> satisfies
  \<open>HealthyCount + WarningCount + CriticalCount = TotalLabels\<close>, and \<open>AttentionNeeded\<close>
  lists exactly the labels whose \<open>HealthLevel\<close> is warning or critical, in lexicographic
  order. The per-label results are those of the labels of the catalog, one for each and
  in its order, and \<open>TotalLabels\<close> is their number.
\<close>

theorem C9_label_analysis_counts:
  "HealthyCount (ComputeAllLabelHealth analyze issues cfg now) +
     WarningCount (ComputeAllLabelHealth analyze issues cfg now) +
     CriticalCount (ComputeAllLabelHealth analyze issues cfg now) =
     TotalLabels (ComputeAllLabelHealth analyze issues cfg now) \<and>
   AttentionNeeded (ComputeAllLabelHealth analyze issues cfg now) =
     map lh_Label
       (filter warning_or_critical (ar_Labels (ComputeAllLabelHealth analyze issues cfg now))) \<and>
   sorted (AttentionNeeded (ComputeAllLabelHealth analyze issues cfg now)) \<and>
   map lh_Label (ar_Labels (ComputeAllLabelHealth analyze issues cfg now)) =
     er_Labels (ExtractLabels issues) \<and>
   TotalLabels (ComputeAllLabelHealth analyze issues cfg now) =
     int (length (er_Labels (ExtractLabels issues)))"
proof -
  define ls where "ls = er_Labels (ExtractLabels issues)"
  define fs where "fs = analyze issues"
  define r0 where "r0 = \<lparr> GeneratedAt = now, TotalLabels = LabelCount (ExtractLabels issues),
    HealthyCount = 0, WarningCount = 0, CriticalCount = 0, ar_Labels = [], Summaries = [],
    ar_CrossLabelFlow = None, AttentionNeeded = [] \<rparr>"
  define r1 where "r1 = fold (all_health_step analyze issues cfg now fs) ls r0"
  have r: "ComputeAllLabelHealth analyze issues cfg now =
      r1 \<lparr> Summaries := sort_Slice summary_less (Summaries r1) \<rparr>"
    by (simp add: ComputeAllLabelHealth_def Let_def sort_er_Labels r1_def r0_def ls_def fs_def)
  have f: "HealthyCount r1 + WarningCount r1 + CriticalCount r1 = int (length ls)"
    "AttentionNeeded r1 = filter (\<lambda>l. warning_or_critical
                     (ComputeLabelHealthForLabel analyze l issues cfg now (Some fs))) ls"
    "ar_Labels r1 = map (\<lambda>l. ComputeLabelHealthForLabel analyze l issues cfg now (Some fs)) ls"
    "TotalLabels r1 = int (length ls)"
    using fold_all_health_step_fields[of analyze issues cfg now fs ls r0]
    unfolding r1_def[symmetric]
    by (simp_all add: r0_def LabelCount_length ls_def)
  have s: "sorted (AttentionNeeded r1)"
    unfolding f(2) using sorted_er_Labels[of issues] sorted_filter[of id ls]
    by (simp add: ls_def)
  show ?thesis
    unfolding r using f s
    by (simp add: map_label_filter_health map_label_health ls_def)
qed

end
